theory Spec2Isabelle
  imports Complex_Main
begin

section \<open>Python values and exceptions\<close>

text \<open>
  The exceptions that \<^verbatim>\<open>VictimAPI.py\<close> raises itself, the ones the Python
  interpreter raises on the source's own indexing and iteration, and one constructor,
  \<open>TFGraphError\<close>, for an op that TensorFlow rejects while the graph is built (a
  shape mismatch, or a stack of no tensors). A computation that may raise returns
  \<open>py_error + 'a\<close>, with \<open>Inl\<close> for the exception.
\<close>

datatype py_error =
    AttributeError string
  | NotImplementedError string
  | PyException string
  | TypeError
  | IndexError
  | ValueError
  | TFGraphError

text \<open>Python's \<^verbatim>\<open>xs[i]\<close> for a non-negative index.\<close>

definition py_get :: "'a list \<Rightarrow> nat \<Rightarrow> py_error + 'a" where
  "py_get xs i = (if i < length xs then Inr (xs ! i) else Inl IndexError)"

text \<open>
  A list comprehension whose element expression may raise: the elements are evaluated
  from left to right and the first exception ends the comprehension.
\<close>

fun comprehension :: "('a \<Rightarrow> py_error + 'b) \<Rightarrow> 'a list \<Rightarrow> py_error + 'b list" where
  "comprehension f [] = Inr []"
| "comprehension f (x # xs) =
     (case f x of
        Inl e \<Rightarrow> Inl e
      | Inr y \<Rightarrow> (case comprehension f xs of Inl e \<Rightarrow> Inl e | Inr ys \<Rightarrow> Inr (y # ys)))"

text \<open>
  \<^verbatim>\<open>range(start, stop, step)\<close>: \<open>range_from\<close> lists the values for a
  positive step, and \<open>py_range\<close> adds the \<^verbatim>\<open>ValueError\<close> of a zero step.
  Every step in the source is a sample or coefficient count, so none is negative.
\<close>

function range_from :: "int \<Rightarrow> int \<Rightarrow> int \<Rightarrow> int list" where
  "range_from i stop step =
     (if 0 < step \<and> i < stop then i # range_from (i + step) stop step else [])"
  by pat_completeness auto
termination
  by (relation "measure (\<lambda>(i, stop, step). nat (stop - i))") auto

declare range_from.simps [simp del]

definition py_range :: "int \<Rightarrow> int \<Rightarrow> int \<Rightarrow> py_error + int list" where
  "py_range start stop step =
     (if step = 0 then Inl ValueError else Inr (range_from start stop step))"

section \<open>Tensors as nested lists\<close>

text \<open>
  A tensor of rank 2 is a list of rows, one per batch item; a tensor of rank 3 is a list
  of matrices. \<open>shape1\<close> is \<^verbatim>\<open>t.get_shape().as_list()[1]\<close> (or
  \<^verbatim>\<open>t.shape[1]\<close>) of a rank-2 tensor with at least one row.
\<close>

definition shape1 :: "'a list list \<Rightarrow> nat" where
  "shape1 t = (case t of [] \<Rightarrow> 0 | r # _ \<Rightarrow> length r)"

text \<open>
  \<^verbatim>\<open>tf.stack(ts, 1)\<close> of rank-2 tensors: TensorFlow needs at least one
  tensor and equal shapes; entry \<open>[b][k]\<close> of the result is row \<open>b\<close> of tensor
  \<open>k\<close>.
\<close>

definition tf_stack1 :: "'a list list list \<Rightarrow> py_error + 'a list list list" where
  "tf_stack1 ts =
     (case ts of
        [] \<Rightarrow> Inl TFGraphError
      | t0 # _ \<Rightarrow>
          if list_all (\<lambda>t. map length t = map length t0) ts
          then Inr (map (\<lambda>b. map (\<lambda>t. t ! b) ts) [0..<length t0])
          else Inl TFGraphError)"

text \<open>Cutting a flat row-major buffer into rows of \<open>n\<close> entries.\<close>

function chunks :: "nat \<Rightarrow> 'a list \<Rightarrow> 'a list list" where
  "chunks n xs = (if n = 0 \<or> xs = [] then [] else take n xs # chunks n (drop n xs))"
  by pat_completeness auto
termination
  by (relation "measure (\<lambda>(n, xs). length xs)") auto

declare chunks.simps [simp del]

section \<open>CarliniWagnerTransforms\<close>

text \<open>
  The fields of the class that the feature computation reads or writes. Samples are
  reals: the rounding of 32-bit floats is not modelled. \<open>mfcc\<close> and \<open>features\<close>
  are \<^verbatim>\<open>None\<close> until the stage that computes them has run.
\<close>

record cw_transforms =
  window_size :: nat
  window_step :: nat
  n_ceps :: nat
  n_contexts :: nat
  tot_contexts :: nat
  cep_lifter :: nat
  audio_input :: "real list list"
  batch_size :: nat
  mfcc :: "real list list list option"
  features :: "real list list list list option"

text \<open>
  \<^verbatim>\<open>__init__\<close>. \<^verbatim>\<open>int(0.032 * sample_rate)\<close> and
  \<^verbatim>\<open>int(0.02 * sample_rate)\<close> are taken as exact products, truncated; at the
  default rate of 16000 they are 512 and 320.
\<close>

definition init :: "real list list \<Rightarrow> nat \<Rightarrow> nat \<Rightarrow> nat \<Rightarrow> nat \<Rightarrow> nat \<Rightarrow> cw_transforms" where
  "init audio_tensor batch_sz sample_rate n_context n_cep cep_lift =
     \<lparr> window_size = (32 * sample_rate) div 1000,
       window_step = (20 * sample_rate) div 1000,
       n_ceps = n_cep,
       n_contexts = n_context,
       tot_contexts = (n_context * 2) + 1,
       cep_lifter = cep_lift,
       audio_input = audio_tensor,
       batch_size = batch_sz,
       mfcc = None,
       features = None \<rparr>"

text \<open>The constructor with its default keyword arguments.\<close>

definition init_default :: "real list list \<Rightarrow> nat \<Rightarrow> cw_transforms" where
  "init_default audio_tensor batch_sz = init audio_tensor batch_sz 16000 9 26 22"

text \<open>
  \<^verbatim>\<open>_window_generator\<close>: one slice \<^verbatim>\<open>audio[:, i:i + window_size]\<close> for
  every \<open>i\<close> of \<^verbatim>\<open>range(0, size - window_step, window_step)\<close>, where
  \<open>n_samples\<close> is the source's \<^verbatim>\<open>size\<close>. A slice that
  reaches past the end of a row is shorter than \<open>window_size\<close>.
\<close>

definition window_generator ::
  "cw_transforms \<Rightarrow> real list list \<Rightarrow> nat \<Rightarrow> py_error + real list list list" where
  "window_generator t audio n_samples =
     (case py_range 0 (int n_samples - int (window_step t)) (int (window_step t)) of
        Inl e \<Rightarrow> Inl e
      | Inr idxs \<Rightarrow> Inr (map (\<lambda>i. map (\<lambda>row. take (window_size t) (drop (nat i) row)) audio) idxs))"

text \<open>
  \<^verbatim>\<open>_context_generator\<close>: the slices
  \<^verbatim>\<open>feats[:, i:i + tot_contexts * n_ceps]\<close> at stride \<open>n_ceps\<close>.
\<close>

definition context_generator ::
  "cw_transforms \<Rightarrow> real list list \<Rightarrow> py_error + real list list list" where
  "context_generator t feats =
     (case py_range 0 (int (shape1 feats) - int (tot_contexts t * n_ceps t) + 1) (int (n_ceps t)) of
        Inl e \<Rightarrow> Inl e
      | Inr idxs \<Rightarrow>
          Inr (map (\<lambda>i. map (\<lambda>row. take (tot_contexts t * n_ceps t) (drop (nat i) row)) feats) idxs))"

text \<open>
  Step 1 of \<^verbatim>\<open>mfcc_ops\<close> on one row of the batch:
  \<^verbatim>\<open>concat((audio[:, :1], audio[:, 1:] - 0.97 * audio[:, :-1]), 1)\<close>.
\<close>

definition pre_emphasis :: "real list \<Rightarrow> real list" where
  "pre_emphasis x = take 1 x @ map2 (\<lambda>a b. a - 0.97 * b) (drop 1 x) (butlast x)"

text \<open>
  \<^verbatim>\<open>windowed * window\<close> multiplies frames of \<open>w\<close> samples by the Hamming
  window of \<open>window_size\<close> points; broadcasting accepts equal lengths, or a length of
  one on either side.
\<close>

definition broadcastable :: "nat \<Rightarrow> nat \<Rightarrow> bool" where
  "broadcastable w n = (w = n \<or> w = 1 \<or> n = 1)"

text \<open>
  \<^verbatim>\<open>mfcc_ops\<close>. Steps 1 and 2 (pre-emphasis, framing and stacking) are as in
  the source. From the Hamming window on, steps 2 to 7 act on each frame alone (window,
  real FFT, energy, mel filterbank, log, DCT, lifter, energy in place of coefficient 0);
  their floating-point arithmetic and the filterbank file are the parameter
  \<open>frame_mfcc\<close>, which maps one frame to its coefficients.
\<close>

definition mfcc_ops :: "(real list \<Rightarrow> real list) \<Rightarrow> cw_transforms \<Rightarrow> py_error + cw_transforms" where
  "mfcc_ops frame_mfcc t =
     (let audio = map pre_emphasis (audio_input t);
          n_samples = shape1 audio
      in case window_generator t audio n_samples of
           Inl e \<Rightarrow> Inl e
         | Inr ws \<Rightarrow>
             (case tf_stack1 ws of
                Inl e \<Rightarrow> Inl e
              | Inr windowed \<Rightarrow>
                  if list_all (list_all (\<lambda>frame. broadcastable (length frame) (window_size t))) windowed
                  then Inr (t\<lparr>mfcc := Some (map (map frame_mfcc) windowed)\<rparr>)
                  else Inl TFGraphError))"

text \<open>
  \<^verbatim>\<open>window_ops\<close>. \<^verbatim>\<open>tf.concat\<close> along axis 1 needs the batch and
  coefficient axes of \<open>mfcc\<close> to agree with those of the zero context;
  \<^verbatim>\<open>reshape(features, [batch_size, -1])\<close> flattens each batch item; the last
  reshape cuts each item's row-major buffer into rows of \<open>n_ceps\<close> entries and groups
  them \<open>tot_contexts\<close> at a time, and needs the buffer to divide evenly.
\<close>

definition window_ops :: "cw_transforms \<Rightarrow> py_error + cw_transforms" where
  "window_ops t =
     (case mfcc t of
        None \<Rightarrow> Inl (AttributeError ''You haven't created an mfcc value yet!'')
      | Some m \<Rightarrow>
          let empty_context = replicate (batch_size t) (replicate (n_contexts t) (replicate (n_ceps t) 0))
          in if length m = batch_size t \<and> list_all (list_all (\<lambda>frame. length frame = n_ceps t)) m
             then
               (let padded = map2 (\<lambda>ec item. ec @ item @ ec) empty_context m;
                    flat = map concat padded
                in case context_generator t flat of
                     Inl e \<Rightarrow> Inl e
                   | Inr cs \<Rightarrow>
                       (case tf_stack1 cs of
                          Inl e \<Rightarrow> Inl e
                        | Inr stacked \<Rightarrow>
                            if list_all (\<lambda>item. length (concat item) mod (tot_contexts t * n_ceps t) = 0) stacked
                            then Inr (t\<lparr>features :=
                                   Some (map (\<lambda>item. chunks (tot_contexts t) (chunks (n_ceps t) (concat item))) stacked)\<rparr>)
                            else Inl TFGraphError))
             else Inl TFGraphError)"

text \<open>
  The first three statements of \<^verbatim>\<open>Model.create_graph\<close>: the feature
  extractor is built with its default arguments and both stages are run; what comes
  after them is DeepSpeech's own graph.
\<close>

definition create_graph_features ::
  "(real list \<Rightarrow> real list) \<Rightarrow> real list list \<Rightarrow> nat \<Rightarrow> py_error + cw_transforms" where
  "create_graph_features frame_mfcc input_tensor batch_sz =
     (case mfcc_ops frame_mfcc (init_default input_tensor batch_sz) of
        Inl e \<Rightarrow> Inl e
      | Inr t \<Rightarrow> window_ops t)"

section \<open>Model\<close>

subsection \<open>The session and the recurrent state\<close>

text \<open>
  What \<^verbatim>\<open>self.sess\<close> holds between calls is the recurrent state of the
  acoustic model, of some type \<open>'r\<close>. \<open>history\<close> records every
  \<^verbatim>\<open>sess.run\<close> in order: \<open>InitializeState\<close> for a run of the
  \<^verbatim>\<open>initialize_state\<close> op, \<open>Fetch\<close> for a run of anything else.
  \<open>stdout\<close> collects what \<^verbatim>\<open>print\<close> writes.
\<close>

datatype sess_op = InitializeState | Fetch

record 'r world =
  rnn_state :: 'r
  history :: "sess_op list"
  stdout :: "string list"

text \<open>
  A fetch is what \<^verbatim>\<open>sess.run\<close> evaluates: it reads the recurrent state,
  returns a value or raises, and leaves a recurrent state behind.
\<close>

type_synonym ('r, 'o) fetch = "'r \<Rightarrow> (py_error + 'o) \<times> 'r"

definition sess_run :: "('r, 'o) fetch \<Rightarrow> 'r world \<Rightarrow> (py_error + 'o) \<times> 'r world" where
  "sess_run fetch w =
     (case fetch (rnn_state w) of
        (res, r) \<Rightarrow> (res, w\<lparr>rnn_state := r, history := history w @ [Fetch]\<rparr>))"

subsection \<open>External collaborators\<close>

text \<open>
  An array as \<^verbatim>\<open>np.squeeze\<close> may return it from a matrix: of rank 0, 1 or 2.
\<close>

datatype 'a ndarray = Arr0 'a | Arr1 "'a list" | Arr2 "'a list list"

text \<open>
  The libraries the class calls are parameters, with the arguments that the source
  passes and the ones it fixes (alphabet, scorer, number of processes) left out:
  \<^item> \<open>zero_state\<close>: the state that DeepSpeech's \<^verbatim>\<open>initialize_state\<close> op
    assigns;
  \<^item> \<open>run_logits\<close>, \<open>run_raw_logits\<close>: the tensors \<^verbatim>\<open>self.logits\<close> and
    \<^verbatim>\<open>self.raw_logits\<close> as fetches, given a feed;
  \<^item> \<open>ctc_beam_search_decoder\<close>, \<open>ctc_beam_search_decoder_batch\<close>: the two
    decoders of \<^verbatim>\<open>ds_ctcdecoder\<close>, from probabilities (and sequence lengths)
    and a beam width to ranked (probability, transcript) pairs;
  \<^item> \<open>tf_ctc_beam_search_decoder\<close>, \<open>tf_ctc_greedy_decoder\<close>: the two decoders
    of TensorFlow with the conversion to a dense tensor; each builds ops, which may
    raise, and returns what is fetched later: the dense label matrix, and for the greedy
    decoder also the log probabilities.
  Logits are of some type \<open>'a\<close>, scores of some type \<open>'s\<close>, feeds of some type
  \<open>'f\<close>.
\<close>

record ('a, 's, 'f, 'r) externals =
  zero_state :: 'r
  run_logits :: "'f \<Rightarrow> ('r, 'a list list list) fetch"
  run_raw_logits :: "'f \<Rightarrow> ('r, 'a list list list) fetch"
  ctc_beam_search_decoder :: "'a ndarray \<Rightarrow> nat \<Rightarrow> py_error + ('s \<times> string) list"
  ctc_beam_search_decoder_batch ::
    "'a list list list \<Rightarrow> nat list \<Rightarrow> nat \<Rightarrow> py_error + ('s \<times> string) list list"
  tf_ctc_beam_search_decoder ::
    "'a list list list option \<Rightarrow> nat list \<Rightarrow> nat \<Rightarrow> py_error + ('r, nat list list) fetch"
  tf_ctc_greedy_decoder ::
    "'a list list list option \<Rightarrow> nat list \<Rightarrow> bool
       \<Rightarrow> py_error + (('r, nat list list) fetch \<times> ('r, 's list list) fetch)"

subsection \<open>The class\<close>

text \<open>
  The attributes of \<^verbatim>\<open>Model\<close> that inference reads, and the two attributes of
  a batch that it reads: \<^verbatim>\<open>batch.audios.feature_lengths\<close> and
  \<^verbatim>\<open>batch.size\<close>.
\<close>

record model =
  decoder :: "string option"
  beam_width :: nat
  tokens :: string

record batch =
  feature_lengths :: "nat list"
  size_batch :: nat

text \<open>What \<^verbatim>\<open>inference\<close> returns, by the shape of the Python value.\<close>

datatype 's decoded =
    Transcripts "string list"
  | TranscriptsScores "string list" "'s list"
  | HypothesisLists "('s \<times> string) list" "('s \<times> string) list"
  | TranscriptScore string 's

text \<open>\<^verbatim>\<open>reset_state\<close>: a run of the \<^verbatim>\<open>initialize_state\<close> op.\<close>

definition reset_state :: "('a, 's, 'f, 'r) externals \<Rightarrow> 'r world \<Rightarrow> 'r world" where
  "reset_state env w =
     w\<lparr>rnn_state := zero_state env, history := history w @ [InitializeState]\<rparr>"

text \<open>
  \<^verbatim>\<open>tf_run\<close>: reset, run, reset. An exception of the run leaves the function
  at once, so the second reset is not reached then.
\<close>

definition tf_run ::
  "('a, 's, 'f, 'r) externals \<Rightarrow> ('r, 'o) fetch \<Rightarrow> 'r world \<Rightarrow> (py_error + 'o) \<times> 'r world" where
  "tf_run env fetch w =
     (case sess_run fetch (reset_state env w) of
        (Inl e, w2) \<Rightarrow> (Inl e, w2)
      | (Inr outs, w2) \<Rightarrow> (Inr outs, reset_state env w2))"

text \<open>
  \<^verbatim>\<open>get_logits\<close>: without a feed the assertion fails, its handler prints a
  line, and the function ends without a \<^verbatim>\<open>return\<close>: the caller receives
  \<^verbatim>\<open>None\<close>.
\<close>

definition get_logits ::
  "('a, 's, 'f, 'r) externals \<Rightarrow> ('f \<Rightarrow> ('r, 'o) fetch) \<Rightarrow> 'f option \<Rightarrow> 'r world
     \<Rightarrow> (py_error + 'o option) \<times> 'r world" where
  "get_logits env logits feed w =
     (case feed of
        None \<Rightarrow>
          (Inr None,
           w\<lparr>stdout := stdout w @ [''You're trying to `get_logits` without providing a feed: '']\<rparr>)
      | Some fd \<Rightarrow>
          (case tf_run env (logits fd) w of
             (Inl e, w') \<Rightarrow> (Inl e, w')
           | (Inr result, w') \<Rightarrow> (Inr (Some result), w')))"

text \<open>
  \<^verbatim>\<open>np.squeeze\<close> of a matrix drops every axis of length one. (A matrix with no
  rows is kept.)
\<close>

definition np_squeeze :: "'a list list \<Rightarrow> 'a ndarray" where
  "np_squeeze m =
     (case m of
        [] \<Rightarrow> Arr2 []
      | [r] \<Rightarrow> (case r of [x] \<Rightarrow> Arr0 x | _ \<Rightarrow> Arr1 r)
      | _ \<Rightarrow> if list_all (\<lambda>r. length r = 1) m then Arr1 (map hd m) else Arr2 m)"

text \<open>\<^verbatim>\<open>ds_decode\<close>: all frames of the item go to the decoder.\<close>

definition ds_decode ::
  "('a, 's, 'f, 'r) externals \<Rightarrow> model \<Rightarrow> 'a list list \<Rightarrow> py_error + ('s \<times> string) list" where
  "ds_decode env self logits = ctc_beam_search_decoder env (np_squeeze logits) (beam_width self)"

text \<open>
  \<^verbatim>\<open>ds_decode_batch\<close>: \<^verbatim>\<open>l = lengths[0]\<close>, and the sequence lengths
  passed on are \<open>l\<close> once for every item of the batch. \<^verbatim>\<open>logits.shape\<close>
  of \<^verbatim>\<open>None\<close> is an \<^verbatim>\<open>AttributeError\<close> of the interpreter (its
  message is written here without the quotation marks).
\<close>

definition ds_decode_batch ::
  "('a, 's, 'f, 'r) externals \<Rightarrow> model \<Rightarrow> 'a list list list option \<Rightarrow> nat list
     \<Rightarrow> py_error + ('s \<times> string) list list" where
  "ds_decode_batch env self logits lengths =
     (case py_get lengths 0 of
        Inl e \<Rightarrow> Inl e
      | Inr l \<Rightarrow>
          (case logits of
             None \<Rightarrow> Inl (AttributeError ''NoneType object has no attribute shape'')
           | Some lg \<Rightarrow>
               ctc_beam_search_decoder_batch env lg (replicate (length lg) l) (beam_width self)))"

text \<open>
  The transcripts of a dense label matrix:
  \<^verbatim>\<open>''.join([tokens[int(x)] for x in tf_dense[0][i]])\<close> for every row.
\<close>

definition join_tokens :: "string \<Rightarrow> nat list list \<Rightarrow> py_error + string list" where
  "join_tokens toks dense = comprehension (comprehension (py_get toks)) dense"

text \<open>\<^verbatim>\<open>tf_beam_decode\<close>.\<close>

definition tf_beam_decode ::
  "('a, 's, 'f, 'r) externals \<Rightarrow> model \<Rightarrow> 'a list list list option \<Rightarrow> nat list \<Rightarrow> 'r world
     \<Rightarrow> (py_error + string list) \<times> 'r world" where
  "tf_beam_decode env self logits features_lengths w =
     (case tf_ctc_beam_search_decoder env logits features_lengths (beam_width self) of
        Inl e \<Rightarrow> (Inl e, w)
      | Inr dense \<Rightarrow>
          (case tf_run env dense w of
             (Inl e, w') \<Rightarrow> (Inl e, w')
           | (Inr tf_dense, w') \<Rightarrow> (join_tokens (tokens self) tf_dense, w')))"

text \<open>
  \<^verbatim>\<open>tf_greedy_decode\<close>, with \<open>merge_repeated\<close> at its default, as
  \<^verbatim>\<open>inference\<close> calls it.
\<close>

definition tf_greedy_decode ::
  "('a, 's, 'f, 'r) externals \<Rightarrow> model \<Rightarrow> 'a list list list option \<Rightarrow> nat list \<Rightarrow> 'r world
     \<Rightarrow> (py_error + string list \<times> 's list) \<times> 'r world" where
  "tf_greedy_decode env self logits features_lengths w =
     (case tf_ctc_greedy_decoder env logits features_lengths True of
        Inl e \<Rightarrow> (Inl e, w)
      | Inr (dense, log_probs) \<Rightarrow>
          (case tf_run env dense w of
             (Inl e, w1) \<Rightarrow> (Inl e, w1)
           | (Inr tf_dense, w1) \<Rightarrow>
               (case join_tokens (tokens self) tf_dense of
                  Inl e \<Rightarrow> (Inl e, w1)
                | Inr tf_outputs \<Rightarrow>
                    (case tf_run env log_probs w1 of
                       (Inl e, w2) \<Rightarrow> (Inl e, w2)
                     | (Inr probs, w2) \<Rightarrow>
                         (case comprehension (\<lambda>prob. py_get prob 0) probs of
                            Inl e \<Rightarrow> (Inl e, w2)
                          | Inr ps \<Rightarrow> (Inr (tf_outputs, ps), w2))))))"

subsection \<open>inference\<close>

text \<open>Python's truth value of an optional string.\<close>

definition truthy :: "string option \<Rightarrow> bool" where
  "truthy d = (case d of None \<Rightarrow> False | Some s \<Rightarrow> s \<noteq> [])"

text \<open>
  \<^verbatim>\<open>if logits is None: logits = self.get_logits(..., feed)\<close>, the first
  statement of every branch.
\<close>

definition logits_or_run ::
  "('a, 's, 'f, 'r) externals \<Rightarrow> ('f \<Rightarrow> ('r, 'o) fetch) \<Rightarrow> 'f option \<Rightarrow> 'o option \<Rightarrow> 'r world
     \<Rightarrow> (py_error + 'o option) \<times> 'r world" where
  "logits_or_run env graph feed logits w =
     (case logits of
        None \<Rightarrow> get_logits env graph feed w
      | Some lg \<Rightarrow> (Inr (Some lg), w))"

text \<open>The branch \<^verbatim>\<open>decoder == "tf"\<close>.\<close>

definition inference_tf ::
  "('a, 's, 'f, 'r) externals \<Rightarrow> model \<Rightarrow> batch \<Rightarrow> 'f option \<Rightarrow> 'a list list list option \<Rightarrow> bool
     \<Rightarrow> 'r world \<Rightarrow> (py_error + 's decoded) \<times> 'r world" where
  "inference_tf env self b feed logits top_five w =
     (if top_five then (Inl (NotImplementedError ''top_five is not implemented for the tf decoder''), w)
      else
        (case logits_or_run env (run_raw_logits env) feed logits w of
           (Inl e, w1) \<Rightarrow> (Inl e, w1)
         | (Inr lg, w1) \<Rightarrow>
             (case tf_beam_decode env self lg (feature_lengths b) w1 of
                (Inl e, w2) \<Rightarrow> (Inl e, w2)
              | (Inr decodings, w2) \<Rightarrow> (Inr (Transcripts decodings), w2))))"

text \<open>
  The selection at the end of the branch \<^verbatim>\<open>decoder == "ds"\<close>, from
  \<open>decoding_probs\<close>, which holds the hypothesis list of every batch item. With
  \<open>top_five\<close>, \<^verbatim>\<open>decoding_probs[i][0]\<close> and
  \<^verbatim>\<open>decoding_probs[i][1]\<close> are taken for \<open>i\<close> from 0 to 4; without it,
  the two components of \<^verbatim>\<open>decoding_probs[0][0]\<close>.
\<close>

definition select_ds :: "('s \<times> string) list list \<Rightarrow> bool \<Rightarrow> py_error + 's decoded" where
  "select_ds decoding_probs top_five =
     (if top_five then
        (case comprehension (\<lambda>i. case py_get decoding_probs i of
                                    Inl e \<Rightarrow> Inl e | Inr hyps \<Rightarrow> py_get hyps 0) [0..<5] of
           Inl e \<Rightarrow> Inl e
         | Inr probs \<Rightarrow>
             (case comprehension (\<lambda>i. case py_get decoding_probs i of
                                         Inl e \<Rightarrow> Inl e | Inr hyps \<Rightarrow> py_get hyps 1) [0..<5] of
                Inl e \<Rightarrow> Inl e
              | Inr decodings \<Rightarrow> Inr (HypothesisLists decodings probs)))
      else
        (case py_get decoding_probs 0 of
           Inl e \<Rightarrow> Inl e
         | Inr hyps \<Rightarrow>
             (case py_get hyps 0 of
                Inl e \<Rightarrow> Inl e
              | Inr h \<Rightarrow> Inr (TranscriptScore (snd h) (fst h)))))"

text \<open>
  The branch \<^verbatim>\<open>decoder == "ds" or not decoder\<close>. Iterating over
  \<^verbatim>\<open>None\<close> is a \<^verbatim>\<open>TypeError\<close>.
\<close>

definition inference_ds ::
  "('a, 's, 'f, 'r) externals \<Rightarrow> model \<Rightarrow> batch \<Rightarrow> 'f option \<Rightarrow> 'a list list list option \<Rightarrow> bool
     \<Rightarrow> 'r world \<Rightarrow> (py_error + 's decoded) \<times> 'r world" where
  "inference_ds env self b feed logits top_five w =
     (case logits_or_run env (run_logits env) feed logits w of
        (Inl e, w1) \<Rightarrow> (Inl e, w1)
      | (Inr None, w1) \<Rightarrow> (Inl TypeError, w1)
      | (Inr (Some lg), w1) \<Rightarrow>
          (case comprehension (ds_decode env self) lg of
             Inl e \<Rightarrow> (Inl e, w1)
           | Inr decoding_probs \<Rightarrow> (select_ds decoding_probs top_five, w1)))"

text \<open>
  The selection at the end of the branch \<^verbatim>\<open>decoder == "batch"\<close>:
  \<^verbatim>\<open>decoding_probs[j][i]\<close> for \<open>i\<close> from 0 to 4 (the outer loop) and every
  \<open>j\<close> below \<^verbatim>\<open>batch.size\<close>, or \<^verbatim>\<open>decoding_probs[j][0]\<close> for
  every \<open>j\<close>.
\<close>

definition pick :: "('s \<times> string) list list \<Rightarrow> nat \<times> nat \<Rightarrow> py_error + ('s \<times> string)" where
  "pick decoding_probs ij =
     (case py_get decoding_probs (snd ij) of
        Inl e \<Rightarrow> Inl e
      | Inr hyps \<Rightarrow> py_get hyps (fst ij))"

definition select_batch :: "('s \<times> string) list list \<Rightarrow> nat \<Rightarrow> bool \<Rightarrow> py_error + 's decoded" where
  "select_batch decoding_probs n top_five =
     (case comprehension (pick decoding_probs)
             (if top_five then List.product [0..<5] [0..<n] else map (Pair 0) [0..<n]) of
        Inl e \<Rightarrow> Inl e
      | Inr hyps \<Rightarrow> Inr (TranscriptsScores (map snd hyps) (map fst hyps)))"

text \<open>The branch \<^verbatim>\<open>decoder == "batch"\<close>.\<close>

definition inference_batch ::
  "('a, 's, 'f, 'r) externals \<Rightarrow> model \<Rightarrow> batch \<Rightarrow> 'f option \<Rightarrow> 'a list list list option \<Rightarrow> bool
     \<Rightarrow> 'r world \<Rightarrow> (py_error + 's decoded) \<times> 'r world" where
  "inference_batch env self b feed logits top_five w =
     (case logits_or_run env (run_logits env) feed logits w of
        (Inl e, w1) \<Rightarrow> (Inl e, w1)
      | (Inr lg, w1) \<Rightarrow>
          (case ds_decode_batch env self lg (feature_lengths b) of
             Inl e \<Rightarrow> (Inl e, w1)
           | Inr decoding_probs \<Rightarrow> (select_batch decoding_probs (size_batch b) top_five, w1)))"

text \<open>The branch \<^verbatim>\<open>decoder == "greedy"\<close>. It does not read \<open>top_five\<close>.\<close>

definition inference_greedy ::
  "('a, 's, 'f, 'r) externals \<Rightarrow> model \<Rightarrow> batch \<Rightarrow> 'f option \<Rightarrow> 'a list list list option \<Rightarrow> bool
     \<Rightarrow> 'r world \<Rightarrow> (py_error + 's decoded) \<times> 'r world" where
  "inference_greedy env self b feed logits top_five w =
     (case logits_or_run env (run_raw_logits env) feed logits w of
        (Inl e, w1) \<Rightarrow> (Inl e, w1)
      | (Inr lg, w1) \<Rightarrow>
          (case tf_greedy_decode env self lg (feature_lengths b) w1 of
             (Inl e, w2) \<Rightarrow> (Inl e, w2)
           | (Inr (tf_outputs, probs), w2) \<Rightarrow> (Inr (TranscriptsScores tf_outputs probs), w2)))"

text \<open>
  \<^verbatim>\<open>inference\<close>: the decoder named in the call, or else the one of the model,
  selects the branch.
\<close>

definition inference ::
  "('a, 's, 'f, 'r) externals \<Rightarrow> model \<Rightarrow> batch \<Rightarrow> 'f option \<Rightarrow> 'a list list list option
     \<Rightarrow> string option \<Rightarrow> bool \<Rightarrow> 'r world \<Rightarrow> (py_error + 's decoded) \<times> 'r world" where
  "inference env self b feed logits decoder_arg top_five w =
     (let d = (if truthy decoder_arg then decoder_arg else decoder self)
      in if d = Some ''tf'' then inference_tf env self b feed logits top_five w
         else if d = Some ''ds'' \<or> \<not> truthy d then inference_ds env self b feed logits top_five w
         else if d = Some ''batch'' then inference_batch env self b feed logits top_five w
         else if d = Some ''greedy'' then inference_greedy env self b feed logits top_five w
         else (Inl (PyException ''Please choose a valid decoder -- tf, greedy, ds or batch''), w))"

subsection \<open>What is assumed of the batch decoder\<close>

text \<open>
  \<^verbatim>\<open>ds_ctcdecoder\<close> documents its batch decoder as its single-item decoder run
  on every item, on the first \<^verbatim>\<open>seq_lengths[i]\<close> frames of item \<open>i\<close>, the
  items being spread over worker processes. Where a property needs this, it is a
  hypothesis on the two parameters.
\<close>

definition decodes_items_alone :: "('a, 's, 'f, 'r) externals \<Rightarrow> bool" where
  "decodes_items_alone env =
     (\<forall>lg lens bw. length lens = length lg \<longrightarrow>
        ctc_beam_search_decoder_batch env lg lens bw
          = comprehension (\<lambda>pn. ctc_beam_search_decoder env (Arr2 (take (snd pn) (fst pn))) bw)
              (zip lg lens))"

subsection \<open>An instance for evaluation\<close>

text \<open>
  An instance of the collaborators, on which the definitions can be run: logits are
  naturals, scores integers and the recurrent state a counter of the fetches since the
  last reset. The acoustic model writes the state it starts from into its logits. The
  decoder returns one hypothesis, with one letter for every frame it is given and the
  negated number of frames as its score; the batch decoder is the single-item decoder
  on the first \<open>n\<close> frames of every item. The TensorFlow decoders label every valid
  frame with 1.
\<close>

definition letters_decoder :: "nat ndarray \<Rightarrow> nat \<Rightarrow> py_error + (int \<times> string) list" where
  "letters_decoder probs bw =
     (case probs of
        Arr2 frames \<Rightarrow> Inr [(- int (length frames), replicate (length frames) CHR ''a'')]
      | _ \<Rightarrow> Inl TypeError)"

definition example_externals :: "(nat, int, unit, nat) externals" where
  "example_externals =
     \<lparr> zero_state = 0,
       run_logits = (\<lambda>fd r. (Inr [[[r, 0], [0, 1]]], Suc r)),
       run_raw_logits = (\<lambda>fd r. (Inr [[[r, 0]], [[0, 1]]], Suc r)),
       ctc_beam_search_decoder = letters_decoder,
       ctc_beam_search_decoder_batch =
         (\<lambda>lg lens bw.
            comprehension (\<lambda>pn. letters_decoder (Arr2 (take (snd pn) (fst pn))) bw) (zip lg lens)),
       tf_ctc_beam_search_decoder =
         (\<lambda>lg lens bw.
            case lg of
              None \<Rightarrow> Inl ValueError
            | Some l \<Rightarrow> Inr (\<lambda>r. (Inr (map (\<lambda>n. replicate n 1) lens), Suc r))),
       tf_ctc_greedy_decoder =
         (\<lambda>lg lens merge.
            case lg of
              None \<Rightarrow> Inl ValueError
            | Some l \<Rightarrow> Inr (\<lambda>r. (Inr (map (\<lambda>n. replicate n 1) lens), Suc r),
                              \<lambda>r. (Inr (map (\<lambda>n. [- int n]) lens), Suc r))) \<rparr>"

definition example_model :: model where
  "example_model =
     \<lparr> decoder = Some ''ds'', beam_width = 500, tokens = '' abcdefghijklmnopqrstuvwxyz'-'' \<rparr>"

definition example_world :: "nat world" where
  "example_world = \<lparr> rnn_state = 7, history = [], stdout = [] \<rparr>"


section \<open>Auxiliary facts\<close>

lemma range_from_empty: "stop \<le> i \<Longrightarrow> range_from i stop step = []"
  by (simp add: range_from.simps)

lemma range_from_single:
  "0 < step \<Longrightarrow> i < stop \<Longrightarrow> stop \<le> i + step \<Longrightarrow> range_from i stop step = [i]"
  by (subst range_from.simps) (simp add: range_from_empty)





lemma comprehension_cong:
  "(\<And>x. x \<in> set xs \<Longrightarrow> f x = g x) \<Longrightarrow> comprehension f xs = comprehension g xs"
  by (induction xs) (simp_all split: sum.splits)

lemma comprehension_zip_replicate:
  "comprehension f (zip xs (replicate (length xs) n)) = comprehension (\<lambda>x. f (x, n)) xs"
  by (induction xs) (simp_all split: sum.splits)


lemma init_default_sizes:
  "window_size (init_default audio bs) = 512" "window_step (init_default audio bs) = 320"
  "audio_input (init_default audio bs) = audio"
  "n_ceps (init_default audio bs) = 26" "n_contexts (init_default audio bs) = 9"
  "tot_contexts (init_default audio bs) = 19" "batch_size (init_default audio bs) = bs"
  "mfcc (init_default audio bs) = None"
  by (simp_all add: init_default_def init_def)

lemma example_decodes_items_alone: "decodes_items_alone example_externals"
  by (simp add: decodes_items_alone_def example_externals_def)

section \<open>Pre-emphasis\<close>

lemma pre_emphasis_length: "length (pre_emphasis x) = length x"
  by (cases x) (simp_all add: pre_emphasis_def)





section \<open>Framing a waveform shorter than one window\<close>

lemma window_generator_short:
  assumes "\<forall>row\<in>set rows. length row = L" and "L < 512"
  shows "window_generator (init_default audio bs) rows L = Inr (if L \<le> 320 then [] else [rows])"
proof (cases "L \<le> 320")
  case True
  then have "range_from 0 (int L - 320) 320 = []" by (intro range_from_empty) simp
  then show ?thesis using True
    by (simp add: window_generator_def init_default_sizes py_range_def)
next
  case False
  then have "range_from 0 (int L - 320) 320 = [0]" using assms(2)
    by (intro range_from_single) simp_all
  moreover have "map (take 512) rows = rows"
    using assms by (simp add: map_idI)
  ultimately show ?thesis using False
    by (simp add: window_generator_def init_default_sizes py_range_def)
qed

lemma mfcc_ops_short:
  assumes ne: "audio \<noteq> []" and rows: "\<forall>row\<in>set audio. length row = L" and short: "L < 512"
  shows "mfcc_ops frame_mfcc (init_default audio bs) = Inl TFGraphError"
proof -
  define rows' where "rows' = map pre_emphasis audio"
  have rows': "\<forall>row\<in>set rows'. length row = L"
    using rows by (auto simp: rows'_def pre_emphasis_length)
  from ne obtain r rs where audio: "audio = r # rs" by (cases audio) auto
  have sh: "shape1 rows' = L" using rows' by (simp add: shape1_def rows'_def audio)
  have wg: "window_generator (init_default audio bs) rows' L = Inr (if L \<le> 320 then [] else [rows'])"
    using rows' short by (rule window_generator_short)
  show ?thesis
  proof (cases "L \<le> 320")
    case True
    then show ?thesis
      unfolding mfcc_ops_def Let_def init_default_sizes
      by (simp add: sh wg tf_stack1_def flip: rows'_def)
  next
    case False
    have len: "length (pre_emphasis r) = L" using rows' by (simp add: rows'_def audio)
    have nb: "\<not> broadcastable L 512" using False short by (simp add: broadcastable_def)
    have "tf_stack1 [rows'] = Inr (map (\<lambda>i. [rows' ! i]) [0..<length rows'])"
      by (simp add: tf_stack1_def)
    moreover have "\<not> list_all (list_all (\<lambda>frame. broadcastable (length frame) 512))
                     (map (\<lambda>i. [rows' ! i]) [0..<length rows'])"
      using nb len by (simp add: rows'_def audio upt_conv_Cons del: upt_Suc)
    ultimately show ?thesis using False
      unfolding mfcc_ops_def Let_def init_default_sizes
      by (simp add: sh wg flip: rows'_def)
  qed
qed

text \<open>
  C4, as amended. For every batch of at least one waveform of \<open>L\<close> samples with
  \<open>L\<close> strictly below \<open>window_size\<close> (512 samples, as \<open>create_graph\<close> builds the
  extractor), framing yields no frame when \<open>L \<le> window_step\<close> and exactly one frame,
  holding all \<open>L\<close> samples and so shorter than a window, when \<open>L > window_step\<close>. In
  both cases \<open>mfcc_ops\<close> raises while the graph is built (a stack of no frames, or a
  frame that does not fit the Hamming window), so \<open>create_graph\<close> raises and there is
  no transcript.
\<close>

theorem short_waveform_raises:
  assumes "audio \<noteq> []" and "\<forall>row\<in>set audio. length row = L"
    and "L < window_size (init_default audio bs)"
  shows "window_generator (init_default audio bs) (map pre_emphasis audio) L
           = Inr (if L \<le> window_step (init_default audio bs) then [] else [map pre_emphasis audio]) \<and>
         mfcc_ops frame_mfcc (init_default audio bs) = Inl TFGraphError \<and>
         create_graph_features frame_mfcc audio bs = Inl TFGraphError"
proof -
  have short: "L < 512" using assms(3) by (simp add: init_default_sizes)
  have rows': "\<forall>row\<in>set (map pre_emphasis audio). length row = L"
    using assms(2) by (auto simp: pre_emphasis_length)
  have "mfcc_ops frame_mfcc (init_default audio bs) = Inl TFGraphError"
    using assms(1,2) short by (rule mfcc_ops_short)
  then show ?thesis
    using window_generator_short [OF rows' short, of audio bs]
    by (simp add: create_graph_features_def init_default_sizes)
qed

theorem short_waveform_raises_witness:
  "[[1, 2, 3]] \<noteq> ([] :: real list list) \<and> 3 < window_size (init_default [[1, 2, 3]] 1) \<and>
   window_generator (init_default [[1, 2, 3]] 1) (map pre_emphasis [[1, 2, 3]]) 3 = Inr [] \<and>
   mfcc_ops id (init_default [[1, 2, 3]] 1) = Inl TFGraphError \<and>
   create_graph_features id [[1, 2, 3]] 1 = Inl TFGraphError"
proof -
  have ne: "[[1, 2, 3]] \<noteq> ([] :: real list list)" by simp
  have rows: "\<forall>row\<in>set [[1, 2, 3 :: real]]. length row = 3" by simp
  have short: "3 < window_size (init_default [[1, 2, 3]] 1)" by (simp add: init_default_sizes)
  show ?thesis
    using short_waveform_raises [OF ne rows short, of id] short
    by (simp add: init_default_sizes)
qed

text \<open>
  C4 as stated fails on a waveform of 400 samples, fewer than the 512 of a window:
  \<^verbatim>\<open>range(0, 400 - 320, 320)\<close> holds \<open>0\<close>, so framing yields one frame, not
  zero, and the pipeline raises instead of returning an empty transcript.
\<close>

theorem short_waveform_counterexample:
  "400 < window_size (init_default [replicate 400 0] 1) \<and>
   window_generator (init_default [replicate 400 0] 1) (map pre_emphasis [replicate 400 0]) 400
     = Inr [map pre_emphasis [replicate 400 0]] \<and>
   create_graph_features id [replicate 400 0] 1 = Inl TFGraphError"
proof -
  have rows: "\<forall>row\<in>set [replicate 400 (0::real)]. length row = 400" by simp
  have rows': "\<forall>row\<in>set (map pre_emphasis [replicate 400 0]). length row = 400"
    by (simp add: pre_emphasis_length)
  have "mfcc_ops id (init_default [replicate 400 0] 1) = Inl TFGraphError"
    by (rule mfcc_ops_short [OF _ rows]) simp_all
  then show ?thesis
    using window_generator_short [OF rows', of "[replicate 400 0]" 1]
    by (simp add: create_graph_features_def init_default_sizes)
qed

section \<open>Context stacking\<close>






section \<open>Context stacking needs an MFCC value\<close>

text \<open>
  C10. Calling \<open>window_ops\<close> while the \<open>mfcc\<close> field is still \<^verbatim>\<open>None\<close>,
  as it is after construction until \<open>mfcc_ops\<close> has run, always raises the
  \<^verbatim>\<open>AttributeError\<close> of the source and computes nothing.
\<close>

theorem window_ops_without_mfcc:
  "mfcc t = None \<Longrightarrow>
     window_ops t = Inl (AttributeError ''You haven't created an mfcc value yet!'')"
  by (simp add: window_ops_def)

theorem window_ops_without_mfcc_witness:
  "mfcc (init_default [[1, 2, 3]] 1) = None \<and>
   window_ops (init_default [[1, 2, 3]] 1)
     = Inl (AttributeError ''You haven't created an mfcc value yet!'')"
proof -
  have h: "mfcc (init_default [[1, 2, 3]] 1) = None"
    by (simp add: init_default_def init_def)
  show ?thesis
    using h window_ops_without_mfcc [OF h] by simp
qed

section \<open>The reset bracket around a session run\<close>



section \<open>The decoders with an external language model\<close>

text \<open>
  C1. The claim asks that item \<open>i\<close> of a batch be decoded on its own
  \<open>sequence_lengths[i]\<close> frames. \<open>ds_decode_batch\<close> passes the length of item 0 for
  every item: the lengths of the other items do not reach the decoder. With lengths
  \<open>[1, 2]\<close>, item 1 is decoded with sequence length 1.
\<close>

theorem ds_decode_batch_first_length:
  "ds_decode_batch env self (Some lg) (l # ls)
     = ctc_beam_search_decoder_batch env lg (replicate (length lg) l) (beam_width self) \<and>
   ds_decode_batch env self (Some [p0, p1]) [1, 2]
     = ctc_beam_search_decoder_batch env [p0, p1] [1, 1] (beam_width self)"
  by (simp add: ds_decode_batch_def py_get_def)

text \<open>
  C7, as amended. Let the batch decoder decode every item alone, on its first
  \<^verbatim>\<open>seq_lengths[i]\<close> frames. For every batch of at least one item in which the
  sequence length of every item is the number \<open>T\<close> of frames of the logits (no
  padded frames), and no axis of an item's logits has length one, so that
  \<^verbatim>\<open>np.squeeze\<close> returns the matrix as it is, the batched strategy returns for
  every item exactly the hypotheses that the non-batched strategy returns on that item.
\<close>

theorem batch_equals_single_without_padding:
  assumes contract: "decodes_items_alone env"
    and ne: "lg \<noteq> []" and len: "length lengths = length lg"
    and frames: "\<forall>p\<in>set lg. length p = T \<and> np_squeeze p = Arr2 p"
    and full: "\<forall>n\<in>set lengths. n = T"
  shows "ds_decode_batch env self (Some lg) lengths = comprehension (ds_decode env self) lg"
proof -
  from ne len obtain l ls where lengths: "lengths = l # ls" by (cases lengths) auto
  have l: "l = T" using full lengths by simp
  have "ds_decode_batch env self (Some lg) lengths
          = ctc_beam_search_decoder_batch env lg (replicate (length lg) T) (beam_width self)"
    by (simp add: ds_decode_batch_def py_get_def lengths l)
  also have "\<dots> = comprehension
                (\<lambda>pn. ctc_beam_search_decoder env (Arr2 (take (snd pn) (fst pn))) (beam_width self))
                (zip lg (replicate (length lg) T))"
    using contract by (simp add: decodes_items_alone_def)
  also have "\<dots> = comprehension
                (\<lambda>p. ctc_beam_search_decoder env (Arr2 (take T p)) (beam_width self)) lg"
    by (simp add: comprehension_zip_replicate)
  also have "\<dots> = comprehension (ds_decode env self) lg"
    using frames by (intro comprehension_cong) (simp add: ds_decode_def)
  finally show ?thesis .
qed

theorem batch_equals_single_without_padding_witness:
  "decodes_items_alone example_externals \<and>
   ds_decode_batch example_externals example_model (Some [[[1, 0], [0, 1]], [[0, 1], [1, 0]]]) [2, 2]
     = comprehension (ds_decode example_externals example_model) [[[1, 0], [0, 1]], [[0, 1], [1, 0]]] \<and>
   comprehension (ds_decode example_externals example_model) [[[1, 0], [0, 1]], [[0, 1], [1, 0]]]
     = Inr [[(- 2, ''aa'')], [(- 2, ''aa'')]]"
proof -
  have frames: "\<forall>p\<in>set [[[1, 0], [0, 1]], [[0, 1], [1, 0 :: nat]]]. length p = 2 \<and> np_squeeze p = Arr2 p"
    by (simp add: np_squeeze_def)
  have full: "\<forall>n\<in>set [2, 2 :: nat]. n = 2" by simp
  have "ds_decode_batch example_externals example_model (Some [[[1, 0], [0, 1]], [[0, 1], [1, 0]]]) [2, 2]
     = comprehension (ds_decode example_externals example_model) [[[1, 0], [0, 1]], [[0, 1], [1, 0]]]"
    by (rule batch_equals_single_without_padding [OF example_decodes_items_alone _ _ frames full]) simp_all
  then show ?thesis
    by (simp add: example_decodes_items_alone)
       (simp add: ds_decode_def example_externals_def example_model_def letters_decoder_def np_squeeze_def)
qed

text \<open>
  C7 as stated fails on a batch of two items with two frames each and sequence lengths
  \<open>[1, 2]\<close>, with a batch decoder that decodes every item alone: the batched strategy
  decodes one frame of each item, the non-batched strategy, which has no sequence
  length, decodes both frames.
\<close>

theorem batch_equals_single_counterexample:
  "decodes_items_alone example_externals \<and>
   length [1, 2 :: nat] = length [[[1, 0], [0, 1]], [[0, 1], [1, 0 :: nat]]] \<and>
   ds_decode_batch example_externals example_model (Some [[[1, 0], [0, 1]], [[0, 1], [1, 0]]]) [1, 2]
     = Inr [[(- 1, ''a'')], [(- 1, ''a'')]] \<and>
   comprehension (ds_decode example_externals example_model) [[[1, 0], [0, 1]], [[0, 1], [1, 0]]]
     = Inr [[(- 2, ''aa'')], [(- 2, ''aa'')]]"
  by (simp add: example_decodes_items_alone)
     (simp add: ds_decode_batch_def ds_decode_def py_get_def example_externals_def
        example_model_def letters_decoder_def np_squeeze_def)

section \<open>inference\<close>

text \<open>
  C2. The claim asks for the best five hypotheses of every item when \<open>top_five\<close> is
  set, and for the best hypothesis of every item otherwise. The branch indexes
  \<open>decoding_probs\<close> by batch item where it means the rank: with \<open>top_five\<close> and a
  batch of one item it raises (an \<^verbatim>\<open>IndexError\<close>, unless the decoder raised
  before), and without \<open>top_five\<close> a batch of two items yields the best hypothesis of
  item 0 only.
\<close>

theorem inference_ds_selection:
  "fst (inference env self b feed (Some [l0]) (Some ''ds'') True w)
     = Inl (case ds_decode env self l0 of Inl e \<Rightarrow> e | Inr hyps \<Rightarrow> IndexError) \<and>
   (ds_decode env self l0 = Inr (h # hs) \<and> ds_decode env self l1 = Inr hs1 \<longrightarrow>
      inference env self b feed (Some [l0, l1]) (Some ''ds'') False w
        = (Inr (TranscriptScore (snd h) (fst h)), w))"
  by (auto simp: inference_def truthy_def inference_ds_def logits_or_run_def select_ds_def
        py_get_def upt_conv_Cons split: sum.splits simp del: upt_Suc)

theorem inference_ds_selection_witness:
  "ds_decode example_externals example_model [[1, 0], [0, 1]] = Inr [(- 2, ''aa'')] \<and>
   ds_decode example_externals example_model [[0, 1], [1, 0], [1, 0]] = Inr [(- 3, ''aaa'')] \<and>
   fst (inference example_externals example_model \<lparr>feature_lengths = [2], size_batch = 1\<rparr> None
          (Some [[[1, 0], [0, 1]]]) (Some ''ds'') True example_world) = Inl IndexError \<and>
   inference example_externals example_model \<lparr>feature_lengths = [2, 3], size_batch = 2\<rparr> None
     (Some [[[1, 0], [0, 1]], [[0, 1], [1, 0], [1, 0]]]) (Some ''ds'') False example_world
     = (Inr (TranscriptScore ''aa'' (- 2)), example_world)"
proof -
  have d0: "ds_decode example_externals example_model [[1, 0], [0, 1]] = Inr [(- 2, ''aa'')]"
    by (simp add: ds_decode_def example_externals_def letters_decoder_def np_squeeze_def)
  have d1: "ds_decode example_externals example_model [[0, 1], [1, 0], [1, 0]] = Inr [(- 3, ''aaa'')]"
    by (simp add: ds_decode_def example_externals_def letters_decoder_def np_squeeze_def)
  show ?thesis
    using inference_ds_selection [of example_externals example_model
        "\<lparr>feature_lengths = [2], size_batch = 1\<rparr>" None "[[1, 0], [0, 1]]" example_world
        "(- 2, ''aa'')" "[]" "[[0, 1], [1, 0], [1, 0]]" "[(- 3, ''aaa'')]"]
      inference_ds_selection [of example_externals example_model
        "\<lparr>feature_lengths = [2, 3], size_batch = 2\<rparr>" None "[[1, 0], [0, 1]]" example_world
        "(- 2, ''aa'')" "[]" "[[0, 1], [1, 0], [1, 0]]" "[(- 3, ''aaa'')]"]
      d0 d1
    by simp
qed

text \<open>
  C3. The claim asks for the "not implemented" error when \<open>top_five\<close> is requested
  from the greedy strategy. The greedy branch never reads \<open>top_five\<close>: whenever
  \<open>tf_greedy_decode\<close> returns transcripts and scores, \<open>inference\<close> with
  \<open>top_five = True\<close> returns them, one hypothesis for every item.
\<close>

theorem inference_greedy_top_five:
  "tf_greedy_decode env self (Some lg) (feature_lengths b) w = (Inr (tf_outputs, probs), w') \<Longrightarrow>
   inference env self b feed (Some lg) (Some ''greedy'') True w
     = (Inr (TranscriptsScores tf_outputs probs), w')"
  by (simp add: inference_def truthy_def inference_greedy_def logits_or_run_def)

theorem inference_greedy_top_five_witness:
  "tf_greedy_decode example_externals example_model (Some [[[1, 0], [0, 1]]])
       (feature_lengths \<lparr>feature_lengths = [2], size_batch = 1\<rparr>) example_world
     = (Inr ([''aa''], [- 2]),
        \<lparr>rnn_state = 0,
         history = [InitializeState, Fetch, InitializeState, InitializeState, Fetch, InitializeState],
         stdout = []\<rparr>) \<and>
   inference example_externals example_model \<lparr>feature_lengths = [2], size_batch = 1\<rparr> None
       (Some [[[1, 0], [0, 1]]]) (Some ''greedy'') True example_world
     = (Inr (TranscriptsScores [''aa''] [- 2]),
        \<lparr>rnn_state = 0,
         history = [InitializeState, Fetch, InitializeState, InitializeState, Fetch, InitializeState],
         stdout = []\<rparr>)"
proof -
  have h: "tf_greedy_decode example_externals example_model (Some [[[1, 0], [0, 1]]])
       (feature_lengths \<lparr>feature_lengths = [2], size_batch = 1\<rparr>) example_world
     = (Inr ([''aa''], [- 2]),
        \<lparr>rnn_state = 0,
         history = [InitializeState, Fetch, InitializeState, InitializeState, Fetch, InitializeState],
         stdout = []\<rparr>)"
    by code_simp
  show ?thesis
    using h inference_greedy_top_five [OF h, of None] by simp
qed

text \<open>
  C9. The claim asks that a call without logits and without a feed be reported as an
  explicit usage error. \<open>get_logits\<close> prints a line and returns \<^verbatim>\<open>None\<close>;
  the \<open>ds\<close> branch then iterates over \<^verbatim>\<open>None\<close>, and the call ends with the
  interpreter's \<^verbatim>\<open>TypeError\<close>.
\<close>

theorem inference_without_feed:
  "inference env self b None None (Some ''ds'') top_five w
     = (Inl TypeError,
        w\<lparr>stdout := stdout w @ [''You're trying to `get_logits` without providing a feed: '']\<rparr>)"
  by (simp add: inference_def truthy_def inference_ds_def logits_or_run_def get_logits_def)

theorem inference_without_feed_witness:
  "inference example_externals example_model \<lparr>feature_lengths = [2], size_batch = 1\<rparr> None None
       (Some ''ds'') False example_world
     = (Inl TypeError,
        \<lparr>rnn_state = 7, history = [],
         stdout = [''You're trying to `get_logits` without providing a feed: '']\<rparr>)"
  using inference_without_feed [of example_externals example_model
      "\<lparr>feature_lengths = [2], size_batch = 1\<rparr>" False example_world]
  by (simp add: example_world_def)

end
